theory Spec2Isabelle
  imports Main "HOL-Library.Sublist"
begin

section \<open>Strings\<close>

text \<open>
  A Python \<open>str\<close> is a \<^typ>\<open>string\<close>; a character outside ASCII stands as the bytes
  of its UTF-8 encoding, and the text is well-formed UTF-8. Of the three built-in
  operations of \<open>str\<close> that \<open>app.py\<close> uses, \<open>strip\<close> removes the white space of
  Unicode at both ends, \<open>sub in s\<close> is the search for a contiguous occurrence, and
  \<open>lower\<close> maps \<open>A\<close>..\<open>Z\<close> to \<open>a\<close>..\<open>z\<close> and keeps every other character: the
  program only searches lower-cased text for ASCII keywords and phrases, none of which
  has a \<open>k\<close> in it or ends in \<open>i\<close>, the two ASCII letters that a character outside
  ASCII lower-cases to (U+212A to \<open>k\<close>, U+0130 to \<open>i\<close> and U+0307).
\<close>

definition lower_char :: "char \<Rightarrow> char" where
  "lower_char c =
     (case map_of (zip ''ABCDEFGHIJKLMNOPQRSTUVWXYZ'' ''abcdefghijklmnopqrstuvwxyz'') c of
        None \<Rightarrow> c
      | Some l \<Rightarrow> l)"

definition lower :: "string \<Rightarrow> string" where
  "lower s = map lower_char s"

text \<open>
  The characters for which \<open>str.isspace\<close> holds, each as its UTF-8 encoding: the ASCII
  white space U+0009..U+000D, U+001C..U+001F and U+0020, and U+0085, U+00A0, U+1680,
  U+2000..U+200A, U+2028, U+2029, U+202F, U+205F and U+3000.
\<close>

definition whitespace :: "string list" where
  "whitespace =
     [[CHR 0x09], [CHR 0x0A], [CHR 0x0B], [CHR 0x0C], [CHR 0x0D],
      [CHR 0x1C], [CHR 0x1D], [CHR 0x1E], [CHR 0x1F], [CHR 0x20],
      [CHR 0xC2, CHR 0x85], [CHR 0xC2, CHR 0xA0],
      [CHR 0xE1, CHR 0x9A, CHR 0x80],
      [CHR 0xE2, CHR 0x80, CHR 0x80], [CHR 0xE2, CHR 0x80, CHR 0x81],
      [CHR 0xE2, CHR 0x80, CHR 0x82], [CHR 0xE2, CHR 0x80, CHR 0x83],
      [CHR 0xE2, CHR 0x80, CHR 0x84], [CHR 0xE2, CHR 0x80, CHR 0x85],
      [CHR 0xE2, CHR 0x80, CHR 0x86], [CHR 0xE2, CHR 0x80, CHR 0x87],
      [CHR 0xE2, CHR 0x80, CHR 0x88], [CHR 0xE2, CHR 0x80, CHR 0x89],
      [CHR 0xE2, CHR 0x80, CHR 0x8A],
      [CHR 0xE2, CHR 0x80, CHR 0xA8], [CHR 0xE2, CHR 0x80, CHR 0xA9],
      [CHR 0xE2, CHR 0x80, CHR 0xAF],
      [CHR 0xE2, CHR 0x81, CHR 0x9F],
      [CHR 0xE3, CHR 0x80, CHR 0x80]]"

text \<open>
  \<open>drop_leading marks s\<close> removes from the front of \<open>s\<close> every leading occurrence of
  one of \<open>marks\<close>. The mark found is not empty, so \<open>drop (length w - 1) cs\<close> is
  \<open>c # cs\<close> without its first \<open>length w\<close> characters.
\<close>

fun drop_leading :: "string list \<Rightarrow> string \<Rightarrow> string" where
  "drop_leading marks [] = []"
| "drop_leading marks (c # cs) =
     (case find (\<lambda>w. w \<noteq> [] \<and> prefix w (c # cs)) marks of
        None \<Rightarrow> c # cs
      | Some w \<Rightarrow> drop_leading marks (drop (length w - 1) cs))"

definition lstrip :: "string \<Rightarrow> string" where
  "lstrip s = drop_leading whitespace s"

text \<open>At the end of the text the encodings are read backwards.\<close>

definition rstrip :: "string \<Rightarrow> string" where
  "rstrip s = rev (drop_leading (map rev whitespace) (rev s))"

definition strip :: "string \<Rightarrow> string" where
  "strip s = rstrip (lstrip s)"

text \<open>\<open>py_in sub s\<close> is Python's \<open>sub in s\<close>: \<open>sub\<close> starts at some position of \<open>s\<close>.\<close>

fun py_in :: "string \<Rightarrow> string \<Rightarrow> bool" where
  "py_in sub [] = (sub = [])"
| "py_in sub (c # cs) = (prefix sub (c # cs) \<or> py_in sub cs)"

text \<open>\<open>str(n)\<close> of a natural number, as the f-string of the retry message prints it.\<close>

fun str_nat :: "nat \<Rightarrow> string" where
  "str_nat n =
     (if n < 10 then [''0123456789'' ! n]
      else str_nat (n div 10) @ [''0123456789'' ! (n mod 10)])"

declare str_nat.simps [simp del]

text \<open>The symbols that open the program's messages, as UTF-8.\<close>

definition cross_mark :: string where
  "cross_mark = [CHR 0xE2, CHR 0x9D, CHR 0x8C]"

definition hourglass :: string where
  "hourglass = [CHR 0xE2, CHR 0x8F, CHR 0xB3]"

definition warning_sign :: string where
  "warning_sign = [CHR 0xE2, CHR 0x9A, CHR 0xA0, CHR 0xEF, CHR 0xB8, CHR 0x8F]"

definition blue_diamond :: string where
  "blue_diamond = [CHR 0xF0, CHR 0x9F, CHR 0x94, CHR 0xB9]"

section \<open>Domain filter\<close>

text \<open>The list \<open>keywords\<close> of \<open>is_finance_tax_related\<close>.\<close>

definition keywords_list :: "string list" where
  "keywords_list =
    [''tax'', ''gst'', ''income'', ''itr'', ''capital gain'', ''deduction'',
     ''filing'', ''assessment'', ''refund'', ''audit'', ''financial year'',
     ''finance'', ''exemption'', ''tds'', ''income tax'', ''taxable'', ''section'',
     ''investment'']"

definition is_finance_tax_related :: "string \<Rightarrow> bool" where
  "is_finance_tax_related query =
     (let query_lower = lower query
      in list_ex (\<lambda>kw. py_in kw query_lower) keywords_list)"

section \<open>The world of a request\<close>

text \<open>
  The program's effects are written out as state. \<open>memory\<close> is the module's one
  conversation memory, a sequence of (query, answer) turns. \<open>predict_calls\<close> counts the
  calls of \<open>llm.predict\<close> made so far: the language model is a collaborator whose
  outcome may change from one call to the next, so its outcome is a function of that
  count. \<open>trace\<close> is the log of what the program did, in program order: each call of a
  collaborator, each \<open>time.sleep\<close>, each \<open>print\<close>, and one entry for every entry into
  \<open>call_llm_with_retry\<close>, so that a theorem can count them.
\<close>

datatype event =
    Retrieve string
  | Invoke_chain string
  | Call_fallback string
  | Predict string
  | Sleep nat
  | Print string
  | Retrieve_value string
  | Invoke_chain_value string

record world =
  memory :: "(string \<times> string) list"
  predict_calls :: nat
  trace :: "event list"

definition emit :: "event list \<Rightarrow> world \<Rightarrow> world" where
  "emit es s = s\<lparr>trace := trace s @ es\<rparr>"

record document =
  page_content :: string

text \<open>
  The collaborators, as parameters. An exception (any instance of \<open>Exception\<close>) is
  \<open>Inl e\<close>, with \<open>e\<close> the text \<open>str(e)\<close>.
  \<^item> \<open>retriever_invoke q\<close>: \<open>retriever.invoke(q)\<close>, the five most similar chunks.
  \<^item> \<open>qa_chain_invoke mem q\<close>: \<open>qa_chain.invoke\<close> on the question \<open>q\<close> with the memory
    \<open>mem\<close>; it gives the response dictionary and the memory it leaves behind.
  \<^item> \<open>llm_predict n q\<close>: the call of \<open>llm.predict(q)\<close> that \<open>n\<close> such calls preceded.
  \<^item> \<open>retriever_invoke_value t\<close> and \<open>qa_chain_invoke_value mem t\<close>: the same two calls
    on a query that is not a string but a value of the Python type named \<open>t\<close> (the
    endpoint passes on whatever JSON value the request holds).

  What lies outside the handlers of \<open>app.py\<close> is taken to succeed: building the retriever
  and the chain (\<open>as_retriever\<close>, \<open>from_llm\<close>), \<open>print\<close> and \<open>time.sleep\<close>. An
  exception that is not an \<open>Exception\<close> (an interrupt, an exit) is not modelled.
\<close>

record env =
  retriever_invoke :: "string \<Rightarrow> string + document list"
  qa_chain_invoke ::
    "(string \<times> string) list \<Rightarrow> string \<Rightarrow>
       (string + (string \<times> string) list) \<times> (string \<times> string) list"
  llm_predict :: "nat \<Rightarrow> string \<Rightarrow> string + string"
  retriever_invoke_value :: "string \<Rightarrow> string + document list"
  qa_chain_invoke_value ::
    "(string \<times> string) list \<Rightarrow> string \<Rightarrow>
       (string + (string \<times> string) list) \<times> (string \<times> string) list"

text \<open>\<open>d.get(k, default)\<close> of a dictionary.\<close>

definition dict_get :: "(string \<times> string) list \<Rightarrow> string \<Rightarrow> string \<Rightarrow> string" where
  "dict_get d k dflt = (case map_of d k of None \<Rightarrow> dflt | Some v \<Rightarrow> v)"

section \<open>Fallback answerer\<close>

definition issues_message :: string where
  "issues_message = ''I am currently experiencing issues. Please try again later.''"

definition apology_message :: string where
  "apology_message = ''Sorry, I encountered an error processing your request.''"

text \<open>
  The loop \<open>for attempt in range(max_retries)\<close> of \<open>call_llm_with_retry\<close>, on the
  attempts still to make.
\<close>

fun retry_loop :: "env \<Rightarrow> string \<Rightarrow> nat list \<Rightarrow> world \<Rightarrow> string \<times> world" where
  "retry_loop E query [] s = (issues_message, s)"
| "retry_loop E query (attempt # rest) s =
     (let s1 = emit [Predict query] (s\<lparr>predict_calls := Suc (predict_calls s)\<rparr>)
      in case llm_predict E (predict_calls s) query of
           Inr answer \<Rightarrow> (answer, s1)
         | Inl e \<Rightarrow>
             if py_in ''429'' e then
               let wait_time = 2 ^ attempt
               in retry_loop E query rest
                    (emit [Print (hourglass @ '' Rate limit reached. Retrying in ''
                                    @ str_nat wait_time @ '' seconds...''),
                           Sleep wait_time] s1)
             else
               (apology_message, emit [Print (cross_mark @ '' API Error: '' @ e)] s1))"

definition call_llm_with_retry :: "env \<Rightarrow> string \<Rightarrow> nat \<Rightarrow> world \<Rightarrow> string \<times> world" where
  "call_llm_with_retry E query max_retries s =
     retry_loop E query [0..<max_retries] (emit [Call_fallback query] s)"

section \<open>Answer composer\<close>

definition rejection_disclaiming :: string where
  "rejection_disclaiming = warning_sign @
     '' I can only answer finance or tax-related queries. Please try again with a relevant question.''"

definition rejection_chain_error :: string where
  "rejection_chain_error = warning_sign @
     '' I can only answer finance or tax-related queries.''"

definition rejection_no_documents :: string where
  "rejection_no_documents = warning_sign @
     '' I can only answer finance or tax-related queries. Please ask something related to tax or finance.''"

text \<open>The test of line 89: the list is not empty and some chunk has text.\<close>

definition has_content :: "document list \<Rightarrow> bool" where
  "has_content retrieved_docs =
     (retrieved_docs \<noteq> [] \<and> list_ex (\<lambda>doc. strip (page_content doc) \<noteq> []) retrieved_docs)"

text \<open>The test of line 94 on the grounded answer.\<close>

definition disclaims :: "string \<Rightarrow> bool" where
  "disclaims faiss_answer =
     (py_in ''not mention'' (lower faiss_answer) \<or> py_in ''does not contain'' (lower faiss_answer))"

text \<open>\<open>max_retries\<close> has the default 3 at each of the three calls.\<close>

definition get_answer :: "env \<Rightarrow> string \<Rightarrow> world \<Rightarrow> string \<times> world" where
  "get_answer E query s =
     (let (retrieved_docs, s1) =
            (case retriever_invoke E query of
               Inr docs \<Rightarrow> (docs, emit [Retrieve query] s)
             | Inl e \<Rightarrow>
                 ([], emit [Retrieve query, Print (cross_mark @ '' Retrieval error: '' @ e)] s))
      in
        if has_content retrieved_docs then
          (case qa_chain_invoke E (memory s1) query of
             (Inr response, mem) \<Rightarrow>
               let s2 = (emit [Invoke_chain query] s1)\<lparr>memory := mem\<rparr>;
                   faiss_answer = strip (dict_get response ''answer'' '''')
               in
                 if disclaims faiss_answer then
                   if is_finance_tax_related query then
                     let (llm_answer, s3) = call_llm_with_retry E query 3 s2
                     in (faiss_answer @ [CHR 0x0A, CHR 0x0A] @ blue_diamond
                           @ '' Additional info from LLM:'' @ [CHR 0x0A] @ llm_answer, s3)
                   else (rejection_disclaiming, s2)
                 else (faiss_answer, s2)
           | (Inl e, mem) \<Rightarrow>
               let s2 = (emit [Invoke_chain query,
                               Print (warning_sign @ '' FAISS chain error: '' @ e)] s1)
                          \<lparr>memory := mem\<rparr>
               in
                 if is_finance_tax_related query then call_llm_with_retry E query 3 s2
                 else (rejection_chain_error, s2))
        else
          if is_finance_tax_related query then call_llm_with_retry E query 3 s1
          else (rejection_no_documents, s1))"

text \<open>
  \<open>get_answer\<close> on a query that is not a string, a value of the type named
  \<open>type_name\<close>. Such a value has no \<open>lower\<close>: each call of \<open>is_finance_tax_related\<close>
  raises an \<open>AttributeError\<close>. At line 95 it is caught by the handler of line 101, which
  logs it and then raises it again at line 103; at lines 103 and 108 nothing catches it.
  \<open>Inl e\<close> is the exception that leaves \<open>get_answer\<close>.
\<close>

definition no_attribute_lower :: "string \<Rightarrow> string" where
  "no_attribute_lower type_name =
     [CHR 0x27] @ type_name @ [CHR 0x27] @ '' object has no attribute ''
       @ [CHR 0x27] @ ''lower'' @ [CHR 0x27]"

definition get_answer_not_str :: "env \<Rightarrow> string \<Rightarrow> world \<Rightarrow> (string + string) \<times> world" where
  "get_answer_not_str E type_name s =
     (let (retrieved_docs, s1) =
            (case retriever_invoke_value E type_name of
               Inr docs \<Rightarrow> (docs, emit [Retrieve_value type_name] s)
             | Inl e \<Rightarrow>
                 ([], emit [Retrieve_value type_name,
                            Print (cross_mark @ '' Retrieval error: '' @ e)] s))
      in
        if has_content retrieved_docs then
          (case qa_chain_invoke_value E (memory s1) type_name of
             (Inr response, mem) \<Rightarrow>
               let s2 = (emit [Invoke_chain_value type_name] s1)\<lparr>memory := mem\<rparr>;
                   faiss_answer = strip (dict_get response ''answer'' '''')
               in
                 if disclaims faiss_answer then
                   (Inl (no_attribute_lower type_name),
                    emit [Print (warning_sign @ '' FAISS chain error: ''
                                   @ no_attribute_lower type_name)] s2)
                 else (Inr faiss_answer, s2)
           | (Inl e, mem) \<Rightarrow>
               (Inl (no_attribute_lower type_name),
                (emit [Invoke_chain_value type_name,
                       Print (warning_sign @ '' FAISS chain error: '' @ e)] s1)
                  \<lparr>memory := mem\<rparr>))
        else (Inl (no_attribute_lower type_name), s1))"

text \<open>
  Modelled from the spec: the retrieval-augmented generation capability behind
  \<open>qa_chain.invoke\<close> (the chain class of the langchain library, built with
  \<open>memory=memory\<close>) and the conversation memory are not part of the repository.
  Section 4.5, step 2: the chain invokes the language model on the chunks, the memory
  and the query, and appends the new (query, answer) turn to the memory; a generation
  call that fails signals the failure, and then nothing was appended (section 5: the
  memory is mutated on every successful grounded answer). Section 3: the memory is an
  ordered sequence of turns, capped at a budget of 500 tokens. The spec does not say
  how tokens are counted nor what is given up: \<open>tokens mem\<close> is the count for a memory
  (the tokenizer is a collaborator), and the oldest turns are dropped until what is left
  is within the budget. \<open>generate mem q\<close> is the generation call.
\<close>

fun cap_memory ::
  "((string \<times> string) list \<Rightarrow> nat) \<Rightarrow> (string \<times> string) list \<Rightarrow> (string \<times> string) list" where
  "cap_memory tokens [] = []"
| "cap_memory tokens (turn # turns) =
     (if tokens (turn # turns) \<le> 500 then turn # turns else cap_memory tokens turns)"

definition qa_chain_spec ::
  "((string \<times> string) list \<Rightarrow> nat) \<Rightarrow>
     ((string \<times> string) list \<Rightarrow> string \<Rightarrow> string + string) \<Rightarrow>
       (string \<times> string) list \<Rightarrow> string \<Rightarrow>
         (string + (string \<times> string) list) \<times> (string \<times> string) list" where
  "qa_chain_spec tokens generate mem query =
     (case generate mem query of
        Inl e \<Rightarrow> (Inl e, mem)
      | Inr answer \<Rightarrow>
          (Inr [(''answer'', answer)], cap_memory tokens (mem @ [(query, answer)])))"

section \<open>HTTP endpoint\<close>

text \<open>
  A JSON value as the program sees it: a string, or a value that is not a string, of
  which the program uses the name of its Python type and its truth value. JSON
  \<open>null\<close> is \<open>None\<close> (\<open>NoneType\<close>, false); \<open>true\<close> and \<open>false\<close> are of type \<open>bool\<close>; a
  number is an \<open>int\<close> or a \<open>float\<close>, true unless it is zero; an array is a \<open>list\<close> and
  an object a \<open>dict\<close>, true unless empty.
\<close>

datatype pyvalue =
    Str string
  | Not_str string bool

definition py_None :: pyvalue where
  "py_None = Not_str ''NoneType'' False"

fun truthy :: "pyvalue \<Rightarrow> bool" where
  "truthy (Str text) = (text \<noteq> [])"
| "truthy (Not_str type_name b) = b"

text \<open>
  A request is what \<open>request.get_json()\<close> makes of it: it raises (the body is absent or
  is not JSON), or it returns a value that is not a dictionary (\<open>None\<close>, a list, ...;
  the argument is the name of its Python type), or it returns a dictionary, here the
  list of its items, looked up with \<open>map_of\<close>.
\<close>

datatype request =
    Get_json_raises string
  | Get_json_not_dict string
  | Get_json_dict "(string \<times> pyvalue) list"

record response =
  status :: nat
  body :: "(string \<times> string) list"

text \<open>The answers of the three \<open>return\<close> statements of \<open>chat\<close>.\<close>

definition no_message :: response where
  "no_message = \<lparr>status = 400, body = [(''error'', ''No message provided.'')]\<rparr>"

definition answered :: "string \<Rightarrow> response" where
  "answered answer =
     \<lparr>status = 200, body = [(''answer'', answer), (''source'', ''OpenAI/LangChain'')]\<rparr>"

definition internal_error :: "string \<Rightarrow> world \<Rightarrow> response \<times> world" where
  "internal_error e s =
     (\<lparr>status = 500, body = [(''error'', e)]\<rparr>,
      emit [Print (cross_mark @ '' Error in /chat: '' @ e)] s)"

text \<open>\<open>str(e)\<close> of the \<open>AttributeError\<close> that \<open>data.get\<close> raises on such a value.\<close>

definition no_attribute_get :: "string \<Rightarrow> string" where
  "no_attribute_get type_name =
     [CHR 0x27] @ type_name @ [CHR 0x27] @ '' object has no attribute ''
       @ [CHR 0x27] @ ''get'' @ [CHR 0x27]"

text \<open>
  \<open>data.get("message")\<close> is \<open>None\<close> when the dictionary has no such key; \<open>not
  user_message\<close> is the negation of its truth value. An exception that leaves
  \<open>get_answer\<close> reaches the handler of line 130.
\<close>

definition chat :: "env \<Rightarrow> request \<Rightarrow> world \<Rightarrow> response \<times> world" where
  "chat E req s =
     (case req of
        Get_json_raises e \<Rightarrow> internal_error e s
      | Get_json_not_dict type_name \<Rightarrow> internal_error (no_attribute_get type_name) s
      | Get_json_dict data \<Rightarrow>
          let user_message = (case map_of data ''message'' of None \<Rightarrow> py_None | Some v \<Rightarrow> v)
          in if \<not> truthy user_message then (no_message, s)
             else
               (case user_message of
                  Str query \<Rightarrow>
                    let (answer, s1) = get_answer E query s
                    in (answered answer, s1)
                | Not_str type_name b \<Rightarrow>
                    (case get_answer_not_str E type_name s of
                       (Inr answer, s1) \<Rightarrow> (answered answer, s1)
                     | (Inl e, s1) \<Rightarrow> internal_error e s1)))"

section \<open>Observations on a trace\<close>

fun sleeps :: "event list \<Rightarrow> nat list" where
  "sleeps [] = []"
| "sleeps (Sleep n # es) = n # sleeps es"
| "sleeps (e # es) = sleeps es"

fun fallback_calls :: "event list \<Rightarrow> nat" where
  "fallback_calls [] = 0"
| "fallback_calls (Call_fallback q # es) = Suc (fallback_calls es)"
| "fallback_calls (e # es) = fallback_calls es"

fun chain_calls :: "event list \<Rightarrow> nat" where
  "chain_calls [] = 0"
| "chain_calls (Invoke_chain q # es) = Suc (chain_calls es)"
| "chain_calls (e # es) = chain_calls es"

section \<open>Rate-limited attempts\<close>

text \<open>
  \<open>rate_limited E query n\<close>: the call of \<open>llm.predict\<close> that \<open>n\<close> calls preceded raises
  an exception whose text has \<open>429\<close> in it, the test of line 72.
  \<open>leading_429 E query n m\<close> counts the rate-limited calls in a row from call \<open>n\<close> on,
  among at most \<open>m\<close> calls.
\<close>

definition rate_limited :: "env \<Rightarrow> string \<Rightarrow> nat \<Rightarrow> bool" where
  "rate_limited E query n =
     (case llm_predict E n query of Inl e \<Rightarrow> py_in ''429'' e | Inr answer \<Rightarrow> False)"

fun leading_429 :: "env \<Rightarrow> string \<Rightarrow> nat \<Rightarrow> nat \<Rightarrow> nat" where
  "leading_429 E query n 0 = 0"
| "leading_429 E query n (Suc m) =
     (if rate_limited E query n then Suc (leading_429 E query (Suc n) m) else 0)"

section \<open>Stubs\<close>

text \<open>
  Collaborators with canned behaviour, for running the program on concrete inputs: a
  retriever with one outcome, a chain whose generation has one outcome (on success it
  answers and leaves the turn in the memory), and language models that are rate-limited
  twice and then answer, that are always rate-limited, and that refuse the credential.
\<close>

definition world0 :: world where
  "world0 = \<lparr>memory = [], predict_calls = 0, trace = []\<rparr>"

definition sample_docs :: "document list" where
  "sample_docs = [\<lparr>page_content = ''Section 80C allows a deduction of up to 1.5 lakh.''\<rparr>]"

text \<open>A chunk whose whole text is the no-break space U+00A0.\<close>

definition nbsp_docs :: "document list" where
  "nbsp_docs = [\<lparr>page_content = [CHR 0xC2, CHR 0xA0]\<rparr>]"

definition llm_429_twice :: "nat \<Rightarrow> string \<Rightarrow> string + string" where
  "llm_429_twice n q =
     (if n < 2 then Inl ''Error code: 429 - Rate limit reached''
      else Inr ''GST is a tax on the supply of goods and services.'')"

definition llm_always_429 :: "nat \<Rightarrow> string \<Rightarrow> string + string" where
  "llm_always_429 n q = Inl ''Error code: 429 - Rate limit reached''"

definition llm_unauthorized :: "nat \<Rightarrow> string \<Rightarrow> string + string" where
  "llm_unauthorized n q = Inl ''Error code: 401 - Incorrect API key provided''"

definition stub_env ::
  "(string + document list) \<Rightarrow> (string + string) \<Rightarrow> (nat \<Rightarrow> string \<Rightarrow> string + string) \<Rightarrow> env" where
  "stub_env retrieved generated llm =
     \<lparr>retriever_invoke = (\<lambda>q. retrieved),
      qa_chain_invoke =
        (\<lambda>mem q. case generated of
                    Inl e \<Rightarrow> (Inl e, mem)
                  | Inr answer \<Rightarrow> (Inr [(''answer'', answer)], mem @ [(q, answer)])),
      llm_predict = llm,
      retriever_invoke_value = (\<lambda>t. Inl ''the query is not a text''),
      qa_chain_invoke_value = (\<lambda>mem t. (Inl ''the question is not a text'', mem))\<rparr>"

text \<open>
  The same with the chain of the spec, and one token for each character of the memory.
\<close>

definition count_chars :: "(string \<times> string) list \<Rightarrow> nat" where
  "count_chars mem = sum_list (map (\<lambda>(q, a). length q + length a) mem)"

definition spec_env ::
  "(string + document list) \<Rightarrow> (string + string) \<Rightarrow> (nat \<Rightarrow> string \<Rightarrow> string + string) \<Rightarrow> env" where
  "spec_env retrieved generated llm =
     (stub_env retrieved generated llm)
       \<lparr>qa_chain_invoke := qa_chain_spec count_chars (\<lambda>mem q. generated)\<rparr>"

definition weather_query :: string where
  "weather_query = ''What's the weather?''"

definition gst_query :: string where
  "gst_query = ''What is GST refund?''"

section \<open>Facts about strings\<close>

lemma py_in_sublist: "py_in sub s = sublist sub s"
  by (induction s) (simp_all add: sublist_Cons_right)

lemmas strip_simps = strip_def lstrip_def rstrip_def whitespace_def

lemma strip_examples:
  "strip ([CHR 0x20, CHR 0xC2, CHR 0xA0] @ ''ab c'' @ [CHR 0xE2, CHR 0x80, CHR 0x83, CHR 0x0A]) =
     ''ab c''"
  "strip [CHR 0xC2, CHR 0xA0] = []"
  "strip [CHR 0xE2, CHR 0x9D, CHR 0x8C] = [CHR 0xE2, CHR 0x9D, CHR 0x8C]"
  by (simp_all add: strip_simps)

lemma py_in_iff: "py_in sub s \<longleftrightarrow> (\<exists>pre suf. s = pre @ sub @ suf)"
  by (simp add: py_in_sublist sublist_def)

section \<open>Domain filter: the keyword test\<close>

text \<open>
  C4: \<open>is_finance_tax_related\<close> is true exactly when the lower-cased query has one of the
  eighteen keywords as a contiguous substring. It is a function of the query alone: it
  takes no state and returns none, and it looks at characters, not at words.
\<close>

theorem is_finance_tax_related_iff:
  "is_finance_tax_related query \<longleftrightarrow>
     (\<exists>kw \<in> set [''tax'', ''gst'', ''income'', ''itr'', ''capital gain'', ''deduction'',
                  ''filing'', ''assessment'', ''refund'', ''audit'', ''financial year'',
                  ''finance'', ''exemption'', ''tds'', ''income tax'', ''taxable'',
                  ''section'', ''investment''].
        \<exists>pre suf. lower query = pre @ kw @ suf)"
  unfolding is_finance_tax_related_def keywords_list_def Let_def list_ex_iff py_in_iff ..

theorem is_finance_tax_related_iff_witness:
  "is_finance_tax_related ''What is GST refund?''
   \<and> lower ''What is GST refund?'' = ''what is '' @ ''gst'' @ '' refund?''
   \<and> \<not> is_finance_tax_related ''What's the weather?''
   \<and> \<not> (\<exists>kw \<in> set [''tax'', ''gst'', ''income'', ''itr'', ''capital gain'', ''deduction'',
                  ''filing'', ''assessment'', ''refund'', ''audit'', ''financial year'',
                  ''finance'', ''exemption'', ''tds'', ''income tax'', ''taxable'',
                  ''section'', ''investment''].
        \<exists>pre suf. lower ''What's the weather?'' = pre @ kw @ suf)"
proof -
  have low: "lower ''What is GST refund?'' = ''what is '' @ ''gst'' @ '' refund?''"
    by (simp add: lower_def lower_char_def)
  have "\<exists>pre suf. lower ''What is GST refund?'' = pre @ ''gst'' @ suf"
    using low by blast
  then have yes: "is_finance_tax_related ''What is GST refund?''"
    using is_finance_tax_related_iff [of "''What is GST refund?''"] by simp
  have no: "\<not> is_finance_tax_related ''What's the weather?''"
    by (simp add: is_finance_tax_related_def lower_def lower_char_def keywords_list_def)
  from no is_finance_tax_related_iff [of "''What's the weather?''"] yes low
  show ?thesis by blast
qed

section \<open>Facts about traces and states\<close>

lemma sleeps_append: "sleeps (xs @ ys) = sleeps xs @ sleeps ys"
  by (induction xs rule: sleeps.induct) simp_all

lemma fallback_calls_append: "fallback_calls (xs @ ys) = fallback_calls xs + fallback_calls ys"
  by (induction xs rule: fallback_calls.induct) simp_all

lemma chain_calls_append: "chain_calls (xs @ ys) = chain_calls xs + chain_calls ys"
  by (induction xs rule: chain_calls.induct) simp_all

lemma emit_simps [simp]:
  "trace (emit es s) = trace s @ es"
  "predict_calls (emit es s) = predict_calls s"
  "memory (emit es s) = memory s"
  by (simp_all add: emit_def)

lemma emit_then_memory:
  "(emit es s)\<lparr>memory := mem\<rparr> = s\<lparr>memory := mem, trace := trace s @ es\<rparr>"
  by (cases s) (simp add: emit_def)

lemma emit_emit: "emit es' (emit es s) = emit (es @ es') s"
  by (simp add: emit_def)

section \<open>Facts about the stubs\<close>

lemma stub_env_simps [simp]:
  "retriever_invoke (stub_env r g l) = (\<lambda>q. r)"
  "qa_chain_invoke (stub_env r g l) mem q =
     (case g of
        Inl e \<Rightarrow> (Inl e, mem)
      | Inr answer \<Rightarrow> (Inr [(''answer'', answer)], mem @ [(q, answer)]))"
  "llm_predict (stub_env r g l) = l"
  "retriever_invoke_value (stub_env r g l) = (\<lambda>t. Inl ''the query is not a text'')"
  "qa_chain_invoke_value (stub_env r g l) = (\<lambda>mem t. (Inl ''the question is not a text'', mem))"
  by (simp_all add: stub_env_def)

lemma spec_env_simps [simp]:
  "retriever_invoke (spec_env r g l) = (\<lambda>q. r)"
  "qa_chain_invoke (spec_env r g l) = qa_chain_spec count_chars (\<lambda>mem q. g)"
  "llm_predict (spec_env r g l) = l"
  by (simp_all add: spec_env_def)


lemma weather_query_rejected: "\<not> is_finance_tax_related weather_query"
  by (simp add: weather_query_def is_finance_tax_related_def lower_def lower_char_def
        keywords_list_def)

lemma gst_query_accepted: "is_finance_tax_related gst_query"
  by (simp add: gst_query_def is_finance_tax_related_def lower_def lower_char_def
        keywords_list_def)

lemma sample_docs_content: "has_content sample_docs"
  by (simp add: has_content_def sample_docs_def strip_simps)

lemma nbsp_docs_no_content: "\<not> has_content nbsp_docs"
  by (simp add: has_content_def nbsp_docs_def strip_simps)

lemma disclaims_weather: "disclaims (strip ''The context does not mention the weather. '')"
  by (simp add: disclaims_def strip_simps lower_def lower_char_def)

lemma disclaims_gst: "disclaims (strip ''The document does not contain that.'')"
  by (simp add: disclaims_def strip_simps lower_def lower_char_def)

section \<open>Facts about the retry loop\<close>

lemma upt_0_3: "[0..<3] = [0, 1, 2]"
  by (simp add: upt_rec)

lemma rate_limited_iff:
  "rate_limited E query n \<longleftrightarrow> (\<exists>e. llm_predict E n query = Inl e \<and> py_in ''429'' e)"
  by (cases "llm_predict E n query") (simp_all add: rate_limited_def)

lemma leading_429_le: "leading_429 E q n m \<le> m"
  by (induction m arbitrary: n) simp_all

lemma leading_429_stops:
  "leading_429 E query n m < m \<Longrightarrow> \<not> rate_limited E query (n + leading_429 E query n m)"
proof (induction m arbitrary: n)
  case 0
  then show ?case by simp
next
  case (Suc m)
  show ?case
  proof (cases "rate_limited E query n")
    case True
    with Suc.prems have "leading_429 E query (Suc n) m < m" by simp
    then have "\<not> rate_limited E query (Suc n + leading_429 E query (Suc n) m)"
      by (rule Suc.IH)
    with True show ?thesis by simp
  next
    case False
    then show ?thesis by simp
  qed
qed

lemma leading_429_cong:
  "llm_predict E' = llm_predict E \<Longrightarrow> leading_429 E' query n m = leading_429 E query n m"
  by (induction m arbitrary: n) (simp_all add: rate_limited_def)

lemma retry_loop_sleeps:
  "sleeps (trace (snd (retry_loop E q as s))) =
     sleeps (trace s) @ map (\<lambda>attempt. 2 ^ attempt) (take (leading_429 E q (predict_calls s) (length as)) as)"
proof (induction as arbitrary: s)
  case Nil
  then show ?case by simp
next
  case (Cons a as)
  show ?case
  proof (cases "llm_predict E (predict_calls s) q")
    case (Inl e)
    then show ?thesis
      by (simp add: Cons.IH rate_limited_def sleeps_append Let_def)
  next
    case (Inr v)
    then show ?thesis
      by (simp add: rate_limited_def sleeps_append Let_def)
  qed
qed

lemma retry_loop_predict_calls:
  "predict_calls (snd (retry_loop E q as s)) =
     predict_calls s + min (length as) (Suc (leading_429 E q (predict_calls s) (length as)))"
proof (induction as arbitrary: s)
  case Nil
  then show ?case by simp
next
  case (Cons a as)
  show ?case
  proof (cases "llm_predict E (predict_calls s) q")
    case (Inl e)
    then show ?thesis
      by (simp add: Cons.IH rate_limited_def Let_def)
  next
    case (Inr v)
    then show ?thesis
      by (simp add: rate_limited_def Let_def)
  qed
qed

lemma retry_loop_answer:
  "fst (retry_loop E q as s) =
     (let k = leading_429 E q (predict_calls s) (length as)
      in if k = length as then issues_message
         else case llm_predict E (predict_calls s + k) q of
                Inr v \<Rightarrow> v
              | Inl e \<Rightarrow> apology_message)"
proof (induction as arbitrary: s)
  case Nil
  then show ?case by simp
next
  case (Cons a as)
  show ?case
  proof (cases "llm_predict E (predict_calls s) q")
    case (Inl e)
    then show ?thesis
      by (simp add: Cons.IH rate_limited_def Let_def)
  next
    case (Inr v)
    then show ?thesis
      by (simp add: rate_limited_def Let_def)
  qed
qed

lemma retry_loop_memory: "memory (snd (retry_loop E q as s)) = memory s"
proof (induction as arbitrary: s)
  case Nil
  then show ?case by simp
next
  case (Cons a as)
  then show ?case
    by (cases "llm_predict E (predict_calls s) q") (simp_all add: Let_def)
qed

lemma retry_loop_fallback_calls:
  "fallback_calls (trace (snd (retry_loop E q as s))) = fallback_calls (trace s)"
proof (induction as arbitrary: s)
  case Nil
  then show ?case by simp
next
  case (Cons a as)
  then show ?case
    by (cases "llm_predict E (predict_calls s) q") (simp_all add: Let_def fallback_calls_append)
qed

lemma retry_loop_chain_calls:
  "chain_calls (trace (snd (retry_loop E q as s))) = chain_calls (trace s)"
proof (induction as arbitrary: s)
  case Nil
  then show ?case by simp
next
  case (Cons a as)
  then show ?case
    by (cases "llm_predict E (predict_calls s) q") (simp_all add: Let_def chain_calls_append)
qed

lemma call_sleeps:
  "sleeps (trace (snd (call_llm_with_retry E query max_retries s))) =
     sleeps (trace s) @
       map (\<lambda>attempt. 2 ^ attempt) [0..<leading_429 E query (predict_calls s) max_retries]"
  by (simp add: call_llm_with_retry_def retry_loop_sleeps sleeps_append take_upt leading_429_le)

lemma call_predicts:
  "predict_calls (snd (call_llm_with_retry E query max_retries s)) =
     predict_calls s + min max_retries (Suc (leading_429 E query (predict_calls s) max_retries))"
  by (simp add: call_llm_with_retry_def retry_loop_predict_calls)

lemma call_answer:
  "fst (call_llm_with_retry E query max_retries s) =
     (let k = leading_429 E query (predict_calls s) max_retries
      in if k = max_retries then issues_message
         else case llm_predict E (predict_calls s + k) query of
                Inr v \<Rightarrow> v
              | Inl e \<Rightarrow> apology_message)"
  by (simp add: call_llm_with_retry_def retry_loop_answer Let_def)

lemma call_answer_cong:
  assumes "llm_predict E' = llm_predict E" and "predict_calls s' = predict_calls s"
  shows "fst (call_llm_with_retry E' query n s') = fst (call_llm_with_retry E query n s)"
  using assms by (simp add: call_answer Let_def leading_429_cong [OF assms(1)])

lemma call_memory: "memory (snd (call_llm_with_retry E q n s)) = memory s"
  by (simp add: call_llm_with_retry_def retry_loop_memory)

lemma call_fallback_calls:
  "fallback_calls (trace (snd (call_llm_with_retry E q n s))) = Suc (fallback_calls (trace s))"
  by (simp add: call_llm_with_retry_def retry_loop_fallback_calls fallback_calls_append)

lemma call_chain_calls:
  "chain_calls (trace (snd (call_llm_with_retry E q n s))) = chain_calls (trace s)"
  by (simp add: call_llm_with_retry_def retry_loop_chain_calls chain_calls_append)

lemma call_llm_with_retry_twice_then_success:
  assumes "llm_predict E (predict_calls s) query = Inl e0" and "py_in ''429'' e0"
    and "llm_predict E (Suc (predict_calls s)) query = Inl e1" and "py_in ''429'' e1"
    and "llm_predict E (Suc (Suc (predict_calls s))) query = Inr v"
  shows "call_llm_with_retry E query 3 s =
           (v, s\<lparr>predict_calls := predict_calls s + 3,
                  trace := trace s @
                    [Call_fallback query,
                     Predict query,
                     Print (hourglass @ '' Rate limit reached. Retrying in 1 seconds...''),
                     Sleep 1,
                     Predict query,
                     Print (hourglass @ '' Rate limit reached. Retrying in 2 seconds...''),
                     Sleep 2,
                     Predict query]\<rparr>)"
  using assms
  by (simp add: call_llm_with_retry_def upt_0_3 emit_def str_nat.simps)

lemma call_llm_with_retry_always_429:
  assumes "llm_predict E (predict_calls s) query = Inl e0" and "py_in ''429'' e0"
    and "llm_predict E (Suc (predict_calls s)) query = Inl e1" and "py_in ''429'' e1"
    and "llm_predict E (Suc (Suc (predict_calls s))) query = Inl e2" and "py_in ''429'' e2"
  shows "call_llm_with_retry E query 3 s =
           (issues_message, s\<lparr>predict_calls := predict_calls s + 3,
                  trace := trace s @
                    [Call_fallback query,
                     Predict query,
                     Print (hourglass @ '' Rate limit reached. Retrying in 1 seconds...''),
                     Sleep 1,
                     Predict query,
                     Print (hourglass @ '' Rate limit reached. Retrying in 2 seconds...''),
                     Sleep 2,
                     Predict query,
                     Print (hourglass @ '' Rate limit reached. Retrying in 4 seconds...''),
                     Sleep 4]\<rparr>)"
  using assms
  by (simp add: call_llm_with_retry_def upt_0_3 emit_def str_nat.simps)

lemma call_llm_with_retry_other_error:
  assumes "llm_predict E (predict_calls s) query = Inl e" and "\<not> py_in ''429'' e"
  shows "call_llm_with_retry E query (Suc n) s =
           (apology_message,
            s\<lparr>predict_calls := Suc (predict_calls s),
              trace := trace s @
                [Call_fallback query, Predict query, Print (cross_mark @ '' API Error: '' @ e)]\<rparr>)"
  using assms by (simp add: call_llm_with_retry_def upt_rec [of 0] emit_def)

section \<open>Fallback answerer: retry on rate limiting\<close>

text \<open>
  C2: after each failure whose text has \<open>429\<close> in it, \<open>call_llm_with_retry\<close> sleeps
  \<open>2 ^ attempt\<close> seconds, \<open>attempt\<close> counted from 0, and goes on to the next attempt
  while one is left: the sleeps of a call are \<open>1, 2, ..., 2 ^ (k - 1)\<close> for the \<open>k\<close>
  rate-limited attempts it starts with, and it makes \<open>min max_retries (k + 1)\<close>
  attempts, so at most 3 with the default. A language model that is rate-limited twice
  and then answers \<open>v\<close> gives \<open>v\<close> after three attempts and the two sleeps of 1 and 2
  seconds; one that is rate-limited at all three attempts gives the
  "currently experiencing issues" message after three attempts.
\<close>

theorem call_llm_with_retry_rate_limit:
  "sleeps (trace (snd (call_llm_with_retry E query max_retries s))) =
     sleeps (trace s) @
       map (\<lambda>attempt. 2 ^ attempt) [0..<leading_429 E query (predict_calls s) max_retries]
   \<and> predict_calls (snd (call_llm_with_retry E query max_retries s)) =
       predict_calls s + min max_retries (Suc (leading_429 E query (predict_calls s) max_retries))
   \<and> predict_calls (snd (call_llm_with_retry E query 3 s)) \<le> predict_calls s + 3
   \<and> (rate_limited E query (predict_calls s)
        \<and> rate_limited E query (Suc (predict_calls s))
        \<and> llm_predict E (Suc (Suc (predict_calls s))) query = Inr v
      \<longrightarrow> call_llm_with_retry E query 3 s =
            (v, s\<lparr>predict_calls := predict_calls s + 3,
                   trace := trace s @
                     [Call_fallback query,
                      Predict query,
                      Print (hourglass @ '' Rate limit reached. Retrying in 1 seconds...''),
                      Sleep 1,
                      Predict query,
                      Print (hourglass @ '' Rate limit reached. Retrying in 2 seconds...''),
                      Sleep 2,
                      Predict query]\<rparr>))
   \<and> (rate_limited E query (predict_calls s)
        \<and> rate_limited E query (Suc (predict_calls s))
        \<and> rate_limited E query (Suc (Suc (predict_calls s)))
      \<longrightarrow> call_llm_with_retry E query 3 s =
            (issues_message,
             s\<lparr>predict_calls := predict_calls s + 3,
               trace := trace s @
                 [Call_fallback query,
                  Predict query,
                  Print (hourglass @ '' Rate limit reached. Retrying in 1 seconds...''),
                  Sleep 1,
                  Predict query,
                  Print (hourglass @ '' Rate limit reached. Retrying in 2 seconds...''),
                  Sleep 2,
                  Predict query,
                  Print (hourglass @ '' Rate limit reached. Retrying in 4 seconds...''),
                  Sleep 4]\<rparr>))"
proof -
  have at_most: "predict_calls (snd (call_llm_with_retry E query 3 s)) \<le> predict_calls s + 3"
    by (simp add: call_predicts)
  have twice: "call_llm_with_retry E query 3 s =
            (v, s\<lparr>predict_calls := predict_calls s + 3,
                   trace := trace s @
                     [Call_fallback query,
                      Predict query,
                      Print (hourglass @ '' Rate limit reached. Retrying in 1 seconds...''),
                      Sleep 1,
                      Predict query,
                      Print (hourglass @ '' Rate limit reached. Retrying in 2 seconds...''),
                      Sleep 2,
                      Predict query]\<rparr>)"
    if "rate_limited E query (predict_calls s)"
      and "rate_limited E query (Suc (predict_calls s))"
      and "llm_predict E (Suc (Suc (predict_calls s))) query = Inr v"
    using that call_llm_with_retry_twice_then_success [of E s query _ _ v]
    by (auto simp: rate_limited_iff)
  have always: "call_llm_with_retry E query 3 s =
            (issues_message,
             s\<lparr>predict_calls := predict_calls s + 3,
               trace := trace s @
                 [Call_fallback query,
                  Predict query,
                  Print (hourglass @ '' Rate limit reached. Retrying in 1 seconds...''),
                  Sleep 1,
                  Predict query,
                  Print (hourglass @ '' Rate limit reached. Retrying in 2 seconds...''),
                  Sleep 2,
                  Predict query,
                  Print (hourglass @ '' Rate limit reached. Retrying in 4 seconds...''),
                  Sleep 4]\<rparr>)"
    if "rate_limited E query (predict_calls s)"
      and "rate_limited E query (Suc (predict_calls s))"
      and "rate_limited E query (Suc (Suc (predict_calls s)))"
    using that call_llm_with_retry_always_429 [of E s query]
    by (auto simp: rate_limited_iff)
  from call_sleeps call_predicts at_most twice always show ?thesis
    by blast
qed

theorem call_llm_with_retry_rate_limit_witness:
  "call_llm_with_retry (stub_env (Inr []) (Inl []) llm_429_twice) ''What is GST?'' 3 world0 =
     (''GST is a tax on the supply of goods and services.'',
      \<lparr>memory = [], predict_calls = 3,
       trace =
         [Call_fallback ''What is GST?'',
          Predict ''What is GST?'',
          Print (hourglass @ '' Rate limit reached. Retrying in 1 seconds...''),
          Sleep 1,
          Predict ''What is GST?'',
          Print (hourglass @ '' Rate limit reached. Retrying in 2 seconds...''),
          Sleep 2,
          Predict ''What is GST?'']\<rparr>)
   \<and> call_llm_with_retry (stub_env (Inr []) (Inl []) llm_always_429) ''What is GST?'' 3 world0 =
     (''I am currently experiencing issues. Please try again later.'',
      \<lparr>memory = [], predict_calls = 3,
       trace =
         [Call_fallback ''What is GST?'',
          Predict ''What is GST?'',
          Print (hourglass @ '' Rate limit reached. Retrying in 1 seconds...''),
          Sleep 1,
          Predict ''What is GST?'',
          Print (hourglass @ '' Rate limit reached. Retrying in 2 seconds...''),
          Sleep 2,
          Predict ''What is GST?'',
          Print (hourglass @ '' Rate limit reached. Retrying in 4 seconds...''),
          Sleep 4]\<rparr>)"
proof -
  have a: "rate_limited (stub_env (Inr []) (Inl []) llm_429_twice) ''What is GST?'' 0"
    and b: "rate_limited (stub_env (Inr []) (Inl []) llm_429_twice) ''What is GST?'' (Suc 0)"
    and c: "llm_predict (stub_env (Inr []) (Inl []) llm_429_twice) (Suc (Suc 0)) ''What is GST?'' =
              Inr ''GST is a tax on the supply of goods and services.''"
    by (simp_all add: rate_limited_def llm_429_twice_def)
  have d: "rate_limited (stub_env (Inr []) (Inl []) llm_always_429) ''What is GST?'' n" for n
    by (simp add: rate_limited_def llm_always_429_def)
  show ?thesis
    using call_llm_with_retry_rate_limit
            [of "stub_env (Inr []) (Inl []) llm_429_twice" "''What is GST?''" 3 world0
                "''GST is a tax on the supply of goods and services.''"]
          call_llm_with_retry_rate_limit
            [of "stub_env (Inr []) (Inl []) llm_always_429" "''What is GST?''" 3 world0]
          a b c d
    by (simp add: world0_def issues_message_def)
qed

section \<open>Fallback answerer: other failures, and totality\<close>

text \<open>
  C5: a failure whose text has no \<open>429\<close> in it ends the call at once with the apology:
  the failing attempt is the last one, and no sleep follows it. This holds at the first
  attempt (the whole final state is given) and after \<open>k\<close> rate-limited attempts. And
  whatever the language model does, the call returns a string to its caller: one of the
  two fixed messages, or the value the model answered at one of the attempts.
\<close>

theorem call_llm_with_retry_no_retry_total:
  "(llm_predict E (predict_calls s) query = Inl e \<and> \<not> py_in ''429'' e \<and> 0 < max_retries
      \<longrightarrow> call_llm_with_retry E query max_retries s =
            (apology_message,
             s\<lparr>predict_calls := Suc (predict_calls s),
               trace := trace s @
                 [Call_fallback query, Predict query,
                  Print (cross_mark @ '' API Error: '' @ e)]\<rparr>))
   \<and> (leading_429 E query (predict_calls s) max_retries = k \<and> k < max_retries
        \<and> llm_predict E (predict_calls s + k) query = Inl e
      \<longrightarrow> \<not> py_in ''429'' e
          \<and> fst (call_llm_with_retry E query max_retries s) = apology_message
          \<and> predict_calls (snd (call_llm_with_retry E query max_retries s)) =
              predict_calls s + Suc k
          \<and> length (sleeps (trace (snd (call_llm_with_retry E query max_retries s)))) =
              length (sleeps (trace s)) + k)
   \<and> (fst (call_llm_with_retry E query max_retries s) = issues_message
      \<or> fst (call_llm_with_retry E query max_retries s) = apology_message
      \<or> (\<exists>n < max_retries.
            llm_predict E (predict_calls s + n) query =
              Inr (fst (call_llm_with_retry E query max_retries s))))"
proof -
  let ?k = "leading_429 E query (predict_calls s) max_retries"
  have first: "call_llm_with_retry E query max_retries s =
            (apology_message,
             s\<lparr>predict_calls := Suc (predict_calls s),
               trace := trace s @
                 [Call_fallback query, Predict query,
                  Print (cross_mark @ '' API Error: '' @ e)]\<rparr>)"
    if "llm_predict E (predict_calls s) query = Inl e" and "\<not> py_in ''429'' e"
      and "0 < max_retries"
    using that call_llm_with_retry_other_error [of E s query e "max_retries - 1"] by simp
  have later: "\<not> py_in ''429'' e
          \<and> fst (call_llm_with_retry E query max_retries s) = apology_message
          \<and> predict_calls (snd (call_llm_with_retry E query max_retries s)) =
              predict_calls s + Suc k
          \<and> length (sleeps (trace (snd (call_llm_with_retry E query max_retries s)))) =
              length (sleeps (trace s)) + k"
    if "?k = k" and "k < max_retries" and "llm_predict E (predict_calls s + k) query = Inl e"
  proof -
    from that leading_429_stops [of E query "predict_calls s" max_retries]
    have "\<not> rate_limited E query (predict_calls s + k)" by simp
    with that(3) have "\<not> py_in ''429'' e" by (simp add: rate_limited_def)
    moreover from that have "fst (call_llm_with_retry E query max_retries s) = apology_message"
      by (simp add: call_answer)
    moreover from that have "predict_calls (snd (call_llm_with_retry E query max_retries s)) =
              predict_calls s + Suc k"
      by (simp add: call_predicts)
    moreover from that have
      "length (sleeps (trace (snd (call_llm_with_retry E query max_retries s)))) =
              length (sleeps (trace s)) + k"
      by (simp add: call_sleeps)
    ultimately show ?thesis by simp
  qed
  have total: "fst (call_llm_with_retry E query max_retries s) = issues_message
      \<or> fst (call_llm_with_retry E query max_retries s) = apology_message
      \<or> (\<exists>n < max_retries.
            llm_predict E (predict_calls s + n) query =
              Inr (fst (call_llm_with_retry E query max_retries s)))"
  proof (cases "?k = max_retries")
    case True
    then show ?thesis by (simp add: call_answer)
  next
    case False
    with leading_429_le [of E query "predict_calls s" max_retries]
    have lt: "?k < max_retries" by simp
    show ?thesis
    proof (cases "llm_predict E (predict_calls s + ?k) query")
      case (Inl e')
      with False show ?thesis by (simp add: call_answer)
    next
      case (Inr v)
      with False have "fst (call_llm_with_retry E query max_retries s) = v"
        by (simp add: call_answer)
      with Inr lt show ?thesis by blast
    qed
  qed
  from first later total show ?thesis by blast
qed

theorem call_llm_with_retry_no_retry_total_witness:
  "call_llm_with_retry (stub_env (Inr []) (Inl []) llm_unauthorized) ''What is GST?'' 3 world0 =
     (''Sorry, I encountered an error processing your request.'',
      \<lparr>memory = [], predict_calls = 1,
       trace =
         [Call_fallback ''What is GST?'',
          Predict ''What is GST?'',
          Print (cross_mark @ '' API Error: Error code: 401 - Incorrect API key provided'')]\<rparr>)
   \<and> sleeps (trace (snd (call_llm_with_retry (stub_env (Inr []) (Inl []) llm_unauthorized)
                           ''What is GST?'' 3 world0))) = []"
proof -
  have a: "llm_predict (stub_env (Inr []) (Inl []) llm_unauthorized) 0 ''What is GST?'' =
             Inl ''Error code: 401 - Incorrect API key provided''"
    by (simp add: llm_unauthorized_def)
  have b: "\<not> py_in ''429'' ''Error code: 401 - Incorrect API key provided''"
    by simp
  have c: "leading_429 (stub_env (Inr []) (Inl []) llm_unauthorized) ''What is GST?'' 0 3 = 0"
    by (simp add: eval_nat_numeral rate_limited_def llm_unauthorized_def)
  show ?thesis
    using call_llm_with_retry_no_retry_total
            [of "stub_env (Inr []) (Inl []) llm_unauthorized" world0 "''What is GST?''"
                "''Error code: 401 - Incorrect API key provided''" 3 0]
          a b c
    by (simp add: world0_def apology_message_def)
qed

section \<open>Facts about the paths of the composer\<close>

lemma get_answer_retrieval_raises:
  assumes "retriever_invoke E query = Inl e"
  shows "get_answer E query s =
     (let s1 = emit [Retrieve query, Print (cross_mark @ '' Retrieval error: '' @ e)] s
      in if is_finance_tax_related query then call_llm_with_retry E query 3 s1
         else (rejection_no_documents, s1))"
  using assms by (simp add: get_answer_def has_content_def Let_def)

lemma get_answer_no_content:
  assumes "retriever_invoke E query = Inr docs" and "\<not> has_content docs"
  shows "get_answer E query s =
     (let s1 = emit [Retrieve query] s
      in if is_finance_tax_related query then call_llm_with_retry E query 3 s1
         else (rejection_no_documents, s1))"
  using assms by (simp add: get_answer_def Let_def)

lemma get_answer_chain_raises:
  assumes "retriever_invoke E query = Inr docs" and "has_content docs"
    and "qa_chain_invoke E (memory s) query = (Inl e, mem)"
  shows "get_answer E query s =
     (let s2 = s\<lparr>memory := mem,
                   trace := trace s @
                     [Retrieve query, Invoke_chain query,
                      Print (warning_sign @ '' FAISS chain error: '' @ e)]\<rparr>
      in if is_finance_tax_related query then call_llm_with_retry E query 3 s2
         else (rejection_chain_error, s2))"
  using assms by (simp add: get_answer_def Let_def emit_emit emit_then_memory)

lemma get_answer_chain_returns:
  assumes "retriever_invoke E query = Inr docs" and "has_content docs"
    and "qa_chain_invoke E (memory s) query = (Inr response, mem)"
  shows "get_answer E query s =
     (let s2 = s\<lparr>memory := mem, trace := trace s @ [Retrieve query, Invoke_chain query]\<rparr>;
          faiss_answer = strip (dict_get response ''answer'' '''')
      in if disclaims faiss_answer then
           if is_finance_tax_related query then
             (faiss_answer @ [CHR 0x0A, CHR 0x0A] @ blue_diamond
                @ '' Additional info from LLM:'' @ [CHR 0x0A]
                @ fst (call_llm_with_retry E query 3 s2),
              snd (call_llm_with_retry E query 3 s2))
           else (rejection_disclaiming, s2)
         else (faiss_answer, s2))"
  using assms by (simp add: get_answer_def Let_def emit_emit emit_then_memory case_prod_beta)

lemma rejections_name_the_domain:
  "py_in ''only answer finance or tax-related queries'' rejection_disclaiming"
  "py_in ''only answer finance or tax-related queries'' rejection_chain_error"
  "py_in ''only answer finance or tax-related queries'' rejection_no_documents"
  by (simp_all add: rejection_disclaiming_def rejection_chain_error_def
        rejection_no_documents_def warning_sign_def)

section \<open>Answer composer: the domain gate\<close>

text \<open>
  C1: let the domain filter reject the query. On each path but the clean grounded
  answer, that is when the retrieval raises, when no chunk has text, when the chain
  raises, and when the grounded answer has a disclaimer phrase in it, \<open>get_answer\<close>
  returns a fixed rejection message that says "only answer finance or tax-related
  queries" (the sentence that follows it differs from path to path), and
  \<open>call_llm_with_retry\<close> is not entered and \<open>llm.predict\<close> is not called.
\<close>

theorem get_answer_rejects_outside_domain:
  assumes "\<not> is_finance_tax_related query"
    and "(\<exists>e. retriever_invoke E query = Inl e)
       \<or> (\<exists>docs. retriever_invoke E query = Inr docs \<and> \<not> has_content docs)
       \<or> (\<exists>docs e mem. retriever_invoke E query = Inr docs \<and> has_content docs
             \<and> qa_chain_invoke E (memory s) query = (Inl e, mem))
       \<or> (\<exists>docs response mem. retriever_invoke E query = Inr docs \<and> has_content docs
             \<and> qa_chain_invoke E (memory s) query = (Inr response, mem)
             \<and> disclaims (strip (dict_get response ''answer'' '''')))"
  shows "fst (get_answer E query s) \<in>
           {rejection_disclaiming, rejection_chain_error, rejection_no_documents}
       \<and> py_in ''only answer finance or tax-related queries'' (fst (get_answer E query s))
       \<and> fallback_calls (trace (snd (get_answer E query s))) = fallback_calls (trace s)
       \<and> predict_calls (snd (get_answer E query s)) = predict_calls s"
proof -
  consider
      (retrieval_raises) e where "retriever_invoke E query = Inl e"
    | (no_content) docs where "retriever_invoke E query = Inr docs" "\<not> has_content docs"
    | (chain_raises) docs e mem where "retriever_invoke E query = Inr docs" "has_content docs"
        "qa_chain_invoke E (memory s) query = (Inl e, mem)"
    | (disclaimer) docs response mem where "retriever_invoke E query = Inr docs"
        "has_content docs" "qa_chain_invoke E (memory s) query = (Inr response, mem)"
        "disclaims (strip (dict_get response ''answer'' ''''))"
    using assms(2) by blast
  then show ?thesis
  proof cases
    case retrieval_raises
    with assms(1) show ?thesis
      by (simp add: get_answer_retrieval_raises rejections_name_the_domain
            fallback_calls_append)
  next
    case no_content
    with assms(1) show ?thesis
      by (simp add: get_answer_no_content rejections_name_the_domain fallback_calls_append)
  next
    case chain_raises
    with assms(1) show ?thesis
      by (simp add: get_answer_chain_raises rejections_name_the_domain
            fallback_calls_append)
  next
    case disclaimer
    with assms(1) show ?thesis
      by (simp add: get_answer_chain_returns rejections_name_the_domain
            fallback_calls_append)
  qed
qed

theorem get_answer_rejects_outside_domain_witness:
  "fst (get_answer
         (stub_env (Inr sample_docs) (Inr ''The context does not mention the weather. '')
            llm_429_twice)
         weather_query world0) = rejection_disclaiming
   \<and> fallback_calls (trace (snd (get_answer
         (stub_env (Inr sample_docs) (Inr ''The context does not mention the weather. '')
            llm_429_twice)
         weather_query world0))) = 0
   \<and> fst (get_answer (stub_env (Inl ''index unavailable'') (Inl []) llm_429_twice)
         weather_query world0) = rejection_no_documents
   \<and> fst (get_answer (stub_env (Inr []) (Inl []) llm_429_twice)
         weather_query world0) = rejection_no_documents
   \<and> fst (get_answer (stub_env (Inr sample_docs) (Inl ''timed out'') llm_429_twice)
         weather_query world0) = rejection_chain_error
   \<and> fst (get_answer
         (stub_env (Inr nbsp_docs) (Inr ''Up to 1.5 lakh under section 80C.'') llm_429_twice)
         weather_query world0) = rejection_no_documents"
proof -
  let ?E = "stub_env (Inr sample_docs) (Inr ''The context does not mention the weather. '')
              llm_429_twice"
  have path: "retriever_invoke ?E weather_query = Inr sample_docs \<and> has_content sample_docs
      \<and> qa_chain_invoke ?E (memory world0) weather_query =
          (Inr [(''answer'', ''The context does not mention the weather. '')],
           memory world0 @ [(weather_query, ''The context does not mention the weather. '')])
      \<and> disclaims (strip (dict_get [(''answer'', ''The context does not mention the weather. '')]
                            ''answer'' ''''))"
    using sample_docs_content disclaims_weather by (simp add: dict_get_def)
  have first: "fst (get_answer ?E weather_query world0) = rejection_disclaiming"
    using path weather_query_rejected
    by (simp add: get_answer_chain_returns [of ?E weather_query sample_docs world0])
  have others:
    "fst (get_answer (stub_env (Inl ''index unavailable'') (Inl []) llm_429_twice)
         weather_query world0) = rejection_no_documents"
    "fst (get_answer (stub_env (Inr []) (Inl []) llm_429_twice)
         weather_query world0) = rejection_no_documents"
    "fst (get_answer (stub_env (Inr sample_docs) (Inl ''timed out'') llm_429_twice)
         weather_query world0) = rejection_chain_error"
    using weather_query_rejected sample_docs_content
    by (simp_all add: get_answer_def has_content_def Let_def)
  have nbsp: "fst (get_answer
         (stub_env (Inr nbsp_docs) (Inr ''Up to 1.5 lakh under section 80C.'') llm_429_twice)
         weather_query world0) = rejection_no_documents"
    using weather_query_rejected nbsp_docs_no_content
    by (simp add: get_answer_no_content [where docs = nbsp_docs])
  from path have "(\<exists>e. retriever_invoke ?E weather_query = Inl e)
       \<or> (\<exists>docs. retriever_invoke ?E weather_query = Inr docs \<and> \<not> has_content docs)
       \<or> (\<exists>docs e mem. retriever_invoke ?E weather_query = Inr docs \<and> has_content docs
             \<and> qa_chain_invoke ?E (memory world0) weather_query = (Inl e, mem))
       \<or> (\<exists>docs response mem. retriever_invoke ?E weather_query = Inr docs
             \<and> has_content docs
             \<and> qa_chain_invoke ?E (memory world0) weather_query = (Inr response, mem)
             \<and> disclaims (strip (dict_get response ''answer'' '''')))"
    by blast
  from get_answer_rejects_outside_domain [OF weather_query_rejected this] first others nbsp
  show ?thesis by (simp add: world0_def)
qed

section \<open>Answer composer: a disclaiming grounded answer on a finance query\<close>

text \<open>
  C3: let the domain filter accept the query and let the grounded answer (the chain's
  answer, stripped) have "not mention" or "does not contain" in its lower-cased text;
  such an answer is not empty. Then \<open>get_answer\<close> enters \<open>call_llm_with_retry\<close>
  exactly once, after the chain, and returns the grounded answer, a blank line, the
  label "Additional info from LLM:" and the fallback answer.
\<close>

theorem get_answer_supplements_disclaimer:
  assumes "is_finance_tax_related query"
    and "retriever_invoke E query = Inr docs" and "has_content docs"
    and "qa_chain_invoke E (memory s) query = (Inr response, mem)"
    and "faiss_answer = strip (dict_get response ''answer'' '''')"
    and "disclaims faiss_answer"
  shows "(let s2 = s\<lparr>memory := mem, trace := trace s @ [Retrieve query, Invoke_chain query]\<rparr>;
              (llm_answer, s3) = call_llm_with_retry E query 3 s2
          in get_answer E query s =
               (faiss_answer @ [CHR 0x0A, CHR 0x0A] @ blue_diamond
                  @ '' Additional info from LLM:'' @ [CHR 0x0A] @ llm_answer, s3)
             \<and> fallback_calls (trace s3) = Suc (fallback_calls (trace s)))
       \<and> faiss_answer \<noteq> []"
proof -
  have "faiss_answer \<noteq> []"
    using assms(6) by (auto simp: disclaims_def lower_def)
  then show ?thesis
    using assms
    by (simp add: get_answer_chain_returns [of E query docs s response mem] Let_def
          case_prod_beta call_fallback_calls fallback_calls_append)
qed

theorem get_answer_supplements_disclaimer_witness:
  "get_answer (stub_env (Inr sample_docs) (Inr ''The document does not contain that.'')
                 (\<lambda>n q. Inr ''A GST refund is a claim for excess tax paid.''))
     gst_query world0 =
     (''The document does not contain that.'' @ [CHR 0x0A, CHR 0x0A] @ blue_diamond
        @ '' Additional info from LLM:'' @ [CHR 0x0A]
        @ ''A GST refund is a claim for excess tax paid.'',
      \<lparr>memory = [(gst_query, ''The document does not contain that.'')],
       predict_calls = 1,
       trace = [Retrieve gst_query, Invoke_chain gst_query, Call_fallback gst_query,
                Predict gst_query]\<rparr>)"
proof -
  let ?E = "stub_env (Inr sample_docs) (Inr ''The document does not contain that.'')
              (\<lambda>n q. Inr ''A GST refund is a claim for excess tax paid.'')"
  have r: "retriever_invoke ?E gst_query = Inr sample_docs"
    by simp
  have c: "qa_chain_invoke ?E (memory world0) gst_query =
             (Inr [(''answer'', ''The document does not contain that.'')],
              [(gst_query, ''The document does not contain that.'')])"
    by (simp add: world0_def)
  have a: "strip ''The document does not contain that.'' =
             strip (dict_get [(''answer'', ''The document does not contain that.'')]
                      ''answer'' '''')"
    by (simp add: dict_get_def)
  have f: "call_llm_with_retry ?E gst_query 3
             (world0\<lparr>memory := [(gst_query, ''The document does not contain that.'')],
                     trace := trace world0 @ [Retrieve gst_query, Invoke_chain gst_query]\<rparr>) =
           (''A GST refund is a claim for excess tax paid.'',
            \<lparr>memory = [(gst_query, ''The document does not contain that.'')],
             predict_calls = 1,
             trace = [Retrieve gst_query, Invoke_chain gst_query, Call_fallback gst_query,
                      Predict gst_query]\<rparr>)"
    by (simp add: call_llm_with_retry_def upt_rec [of 0] emit_def world0_def)
  have st: "strip ''The document does not contain that.'' = ''The document does not contain that.''"
    by (simp add: strip_simps)
  show ?thesis
    using get_answer_supplements_disclaimer
            [OF gst_query_accepted r sample_docs_content c a disclaims_gst]
    by (simp add: f st)
qed

section \<open>Answer composer: a clean grounded answer\<close>



section \<open>Answer composer: a retrieval that fails\<close>

text \<open>
  C6: when \<open>retriever.invoke\<close> raises, \<open>get_answer\<close> does not raise: it logs the error
  and goes on with no chunks. The chain is not invoked and the memory is as before; the
  answer is the fallback answer for a query of the domain and the rejection otherwise,
  the same answer as when the retrieval returns no chunk.
\<close>

theorem get_answer_swallows_retrieval_failure:
  assumes "retriever_invoke E query = Inl e"
  shows "get_answer E query s =
           (let s1 = s\<lparr>trace := trace s @
                         [Retrieve query, Print (cross_mark @ '' Retrieval error: '' @ e)]\<rparr>
            in if is_finance_tax_related query then call_llm_with_retry E query 3 s1
               else (rejection_no_documents, s1))
       \<and> fst (get_answer E query s) =
           fst (get_answer (E\<lparr>retriever_invoke := (\<lambda>q. Inr [])\<rparr>) query s)
       \<and> chain_calls (trace (snd (get_answer E query s))) = chain_calls (trace s)
       \<and> memory (snd (get_answer E query s)) = memory s"
proof -
  let ?E' = "E\<lparr>retriever_invoke := (\<lambda>q. Inr [])\<rparr>"
  let ?s1 = "s\<lparr>trace := trace s @
                 [Retrieve query, Print (cross_mark @ '' Retrieval error: '' @ e)]\<rparr>"
  have path: "get_answer E query s =
           (let s1 = ?s1
            in if is_finance_tax_related query then call_llm_with_retry E query 3 s1
               else (rejection_no_documents, s1))"
    using assms by (simp add: get_answer_retrieval_raises emit_def)
  have empty: "get_answer ?E' query s =
           (let s1 = emit [Retrieve query] s
            in if is_finance_tax_related query then call_llm_with_retry ?E' query 3 s1
               else (rejection_no_documents, s1))"
    by (rule get_answer_no_content [of ?E' query "[]"]) (simp_all add: has_content_def)
  have "fst (call_llm_with_retry ?E' query 3 (emit [Retrieve query] s)) =
        fst (call_llm_with_retry E query 3 ?s1)"
    by (rule call_answer_cong) simp_all
  then have same: "fst (get_answer E query s) = fst (get_answer ?E' query s)"
    unfolding path empty by (simp add: Let_def)
  have chain: "chain_calls (trace (snd (get_answer E query s))) = chain_calls (trace s)"
    unfolding path Let_def by (simp add: call_chain_calls chain_calls_append)
  have mem: "memory (snd (get_answer E query s)) = memory s"
    unfolding path Let_def by (simp add: call_memory)
  show ?thesis
    by (intro conjI) (rule path same chain mem)+
qed

theorem get_answer_swallows_retrieval_failure_witness:
  "get_answer (stub_env (Inl ''index unavailable'') (Inl []) llm_429_twice)
     weather_query world0 =
     (rejection_no_documents,
      \<lparr>memory = [], predict_calls = 0,
       trace = [Retrieve weather_query,
                Print (cross_mark @ '' Retrieval error: index unavailable'')]\<rparr>)"
proof -
  have r: "retriever_invoke (stub_env (Inl ''index unavailable'') (Inl []) llm_429_twice)
             weather_query = Inl ''index unavailable''"
    by simp
  have "get_answer (stub_env (Inl ''index unavailable'') (Inl []) llm_429_twice)
          weather_query world0 =
        (let s1 = world0\<lparr>trace := trace world0 @
                    [Retrieve weather_query,
                     Print (cross_mark @ '' Retrieval error: '' @ ''index unavailable'')]\<rparr>
         in if is_finance_tax_related weather_query
            then call_llm_with_retry
                   (stub_env (Inl ''index unavailable'') (Inl []) llm_429_twice)
                   weather_query 3 s1
            else (rejection_no_documents, s1))"
    using get_answer_swallows_retrieval_failure [OF r, of world0] by (rule conjunct1)
  then have "get_answer (stub_env (Inl ''index unavailable'') (Inl []) llm_429_twice)
          weather_query world0 =
       (rejection_no_documents, world0\<lparr>trace := trace world0 @
                    [Retrieve weather_query,
                     Print (cross_mark @ '' Retrieval error: '' @ ''index unavailable'')]\<rparr>)"
    using weather_query_rejected by (simp only: Let_def if_False)
  then show ?thesis
    by (simp add: world0_def)
qed

section \<open>Conversation memory\<close>





section \<open>The answers of the endpoint\<close>

lemma chat_no_message:
  assumes "map_of data ''message'' = None
         \<or> (\<exists>v. map_of data ''message'' = Some v \<and> \<not> truthy v)"
  shows "chat E (Get_json_dict data) s = (no_message, s)"
  using assms by (auto simp: chat_def py_None_def)

lemma chat_message:
  assumes "map_of data ''message'' = Some (Str user_message)" and "user_message \<noteq> []"
  shows "chat E (Get_json_dict data) s =
           (answered (fst (get_answer E user_message s)), snd (get_answer E user_message s))"
  using assms by (simp add: chat_def case_prod_beta)

lemma chat_not_str:
  assumes "map_of data ''message'' = Some (Not_str type_name True)"
  shows "chat E (Get_json_dict data) s =
           (case get_answer_not_str E type_name s of
              (Inr answer, s1) \<Rightarrow> (answered answer, s1)
            | (Inl e, s1) \<Rightarrow> internal_error e s1)"
  using assms by (simp add: chat_def)

lemma deduct_run:
  "get_answer (stub_env (Inr sample_docs) (Inr ''Up to 1.5 lakh under section 80C.'')
                 llm_always_429)
     ''How much can I deduct?'' world0 =
     (''Up to 1.5 lakh under section 80C.'',
      \<lparr>memory = [(''How much can I deduct?'', ''Up to 1.5 lakh under section 80C.'')],
       predict_calls = 0,
       trace = [Retrieve ''How much can I deduct?'', Invoke_chain ''How much can I deduct?'']\<rparr>)"
proof -
  let ?E = "stub_env (Inr sample_docs) (Inr ''Up to 1.5 lakh under section 80C.'')
              llm_always_429"
  have r: "retriever_invoke ?E ''How much can I deduct?'' = Inr sample_docs"
    by simp
  have c: "qa_chain_invoke ?E (memory world0) ''How much can I deduct?'' =
             (Inr [(''answer'', ''Up to 1.5 lakh under section 80C.'')],
              [(''How much can I deduct?'', ''Up to 1.5 lakh under section 80C.'')])"
    by (simp add: world0_def)
  have a: "strip (dict_get [(''answer'', ''Up to 1.5 lakh under section 80C.'')] ''answer'' '''') =
             ''Up to 1.5 lakh under section 80C.''"
    by (simp add: dict_get_def strip_simps)
  have d: "\<not> disclaims ''Up to 1.5 lakh under section 80C.''"
    by (simp add: disclaims_def lower_def lower_char_def)
  from get_answer_chain_returns [OF r sample_docs_content c] a d
  show ?thesis
    by (simp add: Let_def world0_def)
qed

lemma not_str_run:
  "get_answer_not_str (stub_env (Inr sample_docs) (Inr ''Up to 1.5 lakh under section 80C.'')
                         llm_always_429) ''int'' world0 =
     (Inl (no_attribute_lower ''int''),
      \<lparr>memory = [], predict_calls = 0,
       trace = [Retrieve_value ''int'',
                Print (cross_mark @ '' Retrieval error: the query is not a text'')]\<rparr>)"
  by (simp add: get_answer_not_str_def has_content_def emit_def world0_def)

text \<open>
  C8, as amended: for a body that is a JSON object, \<open>chat\<close> answers 400 with
  \<open>{"error": "No message provided."}\<close> when the object has no \<open>message\<close> or one that is
  empty (or false in another way: \<open>null\<close>, zero, \<open>false\<close>), and leaves the world as it
  is; for a message that is a non-empty string it runs \<open>get_answer\<close> on it and answers
  200 with the answer and the source tag.
\<close>

theorem chat_contract:
  "(map_of data ''message'' = None
      \<or> (\<exists>v. map_of data ''message'' = Some v \<and> \<not> truthy v)
      \<longrightarrow> chat E (Get_json_dict data) s =
            (\<lparr>status = 400, body = [(''error'', ''No message provided.'')]\<rparr>, s))
   \<and> (map_of data ''message'' = Some (Str user_message) \<and> user_message \<noteq> []
      \<longrightarrow> chat E (Get_json_dict data) s =
            (\<lparr>status = 200,
              body = [(''answer'', fst (get_answer E user_message s)),
                      (''source'', ''OpenAI/LangChain'')]\<rparr>,
             snd (get_answer E user_message s)))"
  using chat_no_message [of data E s] chat_message [of data user_message E s]
  by (simp add: no_message_def answered_def)

theorem chat_contract_witness:
  "chat (stub_env (Inr sample_docs) (Inr ''Up to 1.5 lakh under section 80C.'') llm_always_429)
        (Get_json_dict []) world0 =
     (\<lparr>status = 400, body = [(''error'', ''No message provided.'')]\<rparr>, world0)
   \<and> chat (stub_env (Inr sample_docs) (Inr ''Up to 1.5 lakh under section 80C.'') llm_always_429)
        (Get_json_dict [(''message'', Str '''')]) world0 =
     (\<lparr>status = 400, body = [(''error'', ''No message provided.'')]\<rparr>, world0)
   \<and> chat (stub_env (Inr sample_docs) (Inr ''Up to 1.5 lakh under section 80C.'') llm_always_429)
        (Get_json_dict [(''message'', Not_str ''int'' False)]) world0 =
     (\<lparr>status = 400, body = [(''error'', ''No message provided.'')]\<rparr>, world0)
   \<and> chat (stub_env (Inr sample_docs) (Inr ''Up to 1.5 lakh under section 80C.'') llm_always_429)
        (Get_json_dict [(''message'', Str ''How much can I deduct?'')]) world0 =
     (\<lparr>status = 200,
       body = [(''answer'', ''Up to 1.5 lakh under section 80C.''),
               (''source'', ''OpenAI/LangChain'')]\<rparr>,
      \<lparr>memory = [(''How much can I deduct?'', ''Up to 1.5 lakh under section 80C.'')],
       predict_calls = 0,
       trace = [Retrieve ''How much can I deduct?'', Invoke_chain ''How much can I deduct?'']\<rparr>)"
  using chat_contract
          [where data = "[]"
             and E = "stub_env (Inr sample_docs) (Inr ''Up to 1.5 lakh under section 80C.'')
                        llm_always_429"
             and s = world0]
        chat_contract
          [where data = "[(''message'', Str '''')]"
             and E = "stub_env (Inr sample_docs) (Inr ''Up to 1.5 lakh under section 80C.'')
                        llm_always_429"
             and s = world0]
        chat_contract
          [where data = "[(''message'', Not_str ''int'' False)]"
             and E = "stub_env (Inr sample_docs) (Inr ''Up to 1.5 lakh under section 80C.'')
                        llm_always_429"
             and s = world0]
        chat_contract
          [where data = "[(''message'', Str ''How much can I deduct?'')]"
             and user_message = "''How much can I deduct?''"
             and E = "stub_env (Inr sample_docs) (Inr ''Up to 1.5 lakh under section 80C.'')
                        llm_always_429"
             and s = world0]
  by (simp add: deduct_run)

text \<open>
  The claim as first stated speaks of every request. The body \<open>[]\<close> is JSON and has no
  \<open>message\<close>, and the body \<open>{"message": 5}\<close> has a message that is not empty; both are
  answered 500, the first because a list has no \<open>get\<close>, the second because the
  retrieval raises on a number and an \<open>int\<close> has no \<open>lower\<close>.
\<close>

theorem chat_contract_counterexample:
  "chat (stub_env (Inr sample_docs) (Inr ''Up to 1.5 lakh under section 80C.'') llm_always_429)
        (Get_json_not_dict ''list'') world0 =
     (\<lparr>status = 500, body = [(''error'', no_attribute_get ''list'')]\<rparr>,
      \<lparr>memory = [], predict_calls = 0,
       trace = [Print (cross_mark @ '' Error in /chat: '' @ no_attribute_get ''list'')]\<rparr>)
   \<and> chat (stub_env (Inr sample_docs) (Inr ''Up to 1.5 lakh under section 80C.'') llm_always_429)
        (Get_json_dict [(''message'', Not_str ''int'' True)]) world0 =
     (\<lparr>status = 500, body = [(''error'', no_attribute_lower ''int'')]\<rparr>,
      \<lparr>memory = [], predict_calls = 0,
       trace = [Retrieve_value ''int'',
                Print (cross_mark @ '' Retrieval error: the query is not a text''),
                Print (cross_mark @ '' Error in /chat: '' @ no_attribute_lower ''int'')]\<rparr>)"
proof -
  let ?E = "stub_env (Inr sample_docs) (Inr ''Up to 1.5 lakh under section 80C.'')
              llm_always_429"
  have a: "chat ?E (Get_json_not_dict ''list'') world0 =
             internal_error (no_attribute_get ''list'') world0"
    by (simp add: chat_def)
  have b: "chat ?E (Get_json_dict [(''message'', Not_str ''int'' True)]) world0 =
             internal_error (no_attribute_lower ''int'')
               \<lparr>memory = [], predict_calls = 0,
                trace = [Retrieve_value ''int'',
                         Print (cross_mark @ '' Retrieval error: the query is not a text'')]\<rparr>"
    by (simp add: chat_def not_str_run)
  show ?thesis
    unfolding a b by (simp add: internal_error_def emit_def world0_def)
qed

text \<open>
  C10: when \<open>request.get_json()\<close> raises (the body is absent or is not JSON), and also
  when it returns a value without \<open>get\<close> such as \<open>None\<close>, the exception reaches the
  handler's \<open>except Exception\<close>: \<open>chat\<close> answers 500 with the text of the exception
  under \<open>error\<close>, not the 400 of a missing message.
\<close>

theorem chat_unreadable_body:
  "chat E (Get_json_raises e) s =
     (\<lparr>status = 500, body = [(''error'', e)]\<rparr>,
      s\<lparr>trace := trace s @ [Print (cross_mark @ '' Error in /chat: '' @ e)]\<rparr>)
   \<and> chat E (Get_json_not_dict type_name) s =
     (\<lparr>status = 500, body = [(''error'', no_attribute_get type_name)]\<rparr>,
      s\<lparr>trace := trace s @
           [Print (cross_mark @ '' Error in /chat: '' @ no_attribute_get type_name)]\<rparr>)
   \<and> fst (chat E (Get_json_raises e) s) \<noteq> no_message
   \<and> fst (chat E (Get_json_not_dict type_name) s) \<noteq> no_message"
  by (simp add: chat_def internal_error_def emit_def no_message_def)

theorem chat_unreadable_body_witness:
  "chat (stub_env (Inr []) (Inl []) llm_always_429)
        (Get_json_raises ''400 Bad Request: Failed to decode JSON object'') world0 =
     (\<lparr>status = 500,
       body = [(''error'', ''400 Bad Request: Failed to decode JSON object'')]\<rparr>,
      \<lparr>memory = [], predict_calls = 0,
       trace = [Print (cross_mark
                  @ '' Error in /chat: 400 Bad Request: Failed to decode JSON object'')]\<rparr>)
   \<and> chat (stub_env (Inr []) (Inl []) llm_always_429) (Get_json_not_dict ''NoneType'') world0 =
     (\<lparr>status = 500,
       body = [(''error'',
                [CHR 0x27] @ ''NoneType'' @ [CHR 0x27] @ '' object has no attribute ''
                  @ [CHR 0x27] @ ''get'' @ [CHR 0x27])]\<rparr>,
      \<lparr>memory = [], predict_calls = 0,
       trace = [Print (cross_mark @ '' Error in /chat: ''
                  @ [CHR 0x27] @ ''NoneType'' @ [CHR 0x27] @ '' object has no attribute ''
                  @ [CHR 0x27] @ ''get'' @ [CHR 0x27])]\<rparr>)"
  using chat_unreadable_body
          [where E = "stub_env (Inr []) (Inl []) llm_always_429"
             and e = "''400 Bad Request: Failed to decode JSON object''"
             and s = world0 and type_name = "''NoneType''"]
  by (simp add: world0_def no_attribute_get_def)

end
